theory Spec2Isabelle
  imports Complex_Main
begin

section \<open>Values, exceptions and the JWT library\<close>

text \<open>
  The bookstore back end (\<^verbatim>\<open>be/model/user.py\<close>, \<^verbatim>\<open>be/model/seller.py\<close>) is embedded
  as functions on an explicit database state. Every effect of the Python is an argument
  or a result: the clock readings of \<^verbatim>\<open>time.time()\<close> are arguments, an exception is
  the left summand of the result, and the collections of the document store are fields
  of a record that each operation returns updated.
\<close>

text \<open>
  The JSON values a decoded token payload can hold. Arrays and objects are left out:
  in the only place a payload value is used (\<^verbatim>\<open>now - ts\<close>) they behave as a string does.
\<close>

datatype json = JNull | JBool bool | JNum real | JStr string

text \<open>A payload is the JSON object of the token, its members in the order they are written.\<close>

type_synonym payload = "(string \<times> json) list"

text \<open>
  A token string, read symbolically: either a string that is not a compact JWS
  (\<open>Garbage\<close>, carrying the string), or a well-formed HS256 JWS with its payload and the
  key under which its signature verifies (\<open>None\<close>: under no key). HMAC-SHA256 is taken
  as ideal: a signature verifies under exactly the key that made it, and two tokens are
  the same string exactly when payload and signature agree.
\<close>

datatype token = Garbage string | Jws payload "string option"

text \<open>The exceptions the modelled code can meet, each with the text \<^verbatim>\<open>str(e)\<close> gives.\<close>

datatype exn =
    PyMongoError string
  | InvalidSignatureError string
  | DecodeError string
  | InvalidKeyError string
  | TypeError string

fun str_exn :: "exn \<Rightarrow> string" where
  "str_exn (PyMongoError m) = m"
| "str_exn (InvalidSignatureError m) = m"
| "str_exn (DecodeError m) = m"
| "str_exn (InvalidKeyError m) = m"
| "str_exn (TypeError m) = m"

text \<open>
  PyJWT does not take every string as an HMAC key: \<^verbatim>\<open>jwt.encode\<close> and \<^verbatim>\<open>jwt.decode\<close>
  raise \<^verbatim>\<open>InvalidKeyError\<close> on a key they refuse (one that looks like an asymmetric key
  or a certificate, such as a string containing \<^verbatim>\<open>ssh-rsa\<close>). Which keys are refused
  depends on the release of the library, so the policy is a parameter \<open>K\<close> of every
  function that signs or verifies: \<open>K k = Some m\<close> says that key \<open>k\<close> is refused with
  \<^verbatim>\<open>InvalidKeyError(m)\<close>.
\<close>

type_synonym key_policy = "string \<Rightarrow> string option"

text \<open>
  The token that signing yields once the key is accepted: the payload holds user id,
  terminal and the clock reading \<open>now\<close> of \<^verbatim>\<open>time.time()\<close>; the key is the user id.
\<close>

definition signed_token :: "string \<Rightarrow> string \<Rightarrow> real \<Rightarrow> token" where
  "signed_token user_id terminal now =
     Jws [(''user_id'', JStr user_id), (''terminal'', JStr terminal), (''timestamp'', JNum now)]
         (Some user_id)"

text \<open>
  \<^verbatim>\<open>jwt_encode(user_id, terminal)\<close>: raises where the library refuses the user id as
  key, and returns the signed token otherwise.
\<close>

definition jwt_encode :: "key_policy \<Rightarrow> string \<Rightarrow> string \<Rightarrow> real \<Rightarrow> exn + token" where
  "jwt_encode K user_id terminal now =
     (case K user_id of
        Some m \<Rightarrow> Inl (InvalidKeyError m)
      | None \<Rightarrow> Inr (signed_token user_id terminal now))"

text \<open>
  \<^verbatim>\<open>jwt_decode(encoded_token, user_id)\<close>: PyJWT raises \<^verbatim>\<open>DecodeError\<close> on a string that
  is not a compact JWS (the text is that of the too-few-segments case, which the empty
  string falls under); on a compact JWS it raises \<^verbatim>\<open>InvalidKeyError\<close> when it refuses
  the key, \<^verbatim>\<open>InvalidSignatureError\<close> when the signature does not verify under the key,
  and returns the payload otherwise. Payloads are taken not to carry the registered
  claims (\<^verbatim>\<open>exp\<close>, \<^verbatim>\<open>nbf\<close>, \<^verbatim>\<open>aud\<close>, ...) that PyJWT validates on its own.
\<close>

definition jwt_decode :: "key_policy \<Rightarrow> token \<Rightarrow> string \<Rightarrow> exn + payload" where
  "jwt_decode K encoded_token user_id =
     (case encoded_token of
        Garbage s \<Rightarrow> Inl (DecodeError ''Not enough segments'')
      | Jws p k \<Rightarrow>
          (case K user_id of
             Some m \<Rightarrow> Inl (InvalidKeyError m)
           | None \<Rightarrow>
               if k = Some user_id then Inr p
               else Inl (InvalidSignatureError ''Signature verification failed'')))"

text \<open>\<^verbatim>\<open>dict.get\<close> on a decoded JSON object: of two members with one name the later wins.\<close>

definition dict_get :: "payload \<Rightarrow> string \<Rightarrow> json option" where
  "dict_get d k = map_of (rev d) k"

definition token_lifetime :: real where
  "token_lifetime = 3600"

text \<open>
  \<^verbatim>\<open>User.__check_token(user_id, db_token, token)\<close>, \<open>now\<close> being the clock reading it
  takes. Only \<^verbatim>\<open>InvalidSignatureError\<close> is caught; any other exception leaves the
  function. \<^verbatim>\<open>now - ts\<close> raises \<^verbatim>\<open>TypeError\<close> on a string (its text is abridged here)
  and counts a boolean as 0 or 1.
\<close>

definition User__check_token ::
  "key_policy \<Rightarrow> string \<Rightarrow> token \<Rightarrow> token \<Rightarrow> real \<Rightarrow> exn + bool" where
  "User__check_token K user_id db_token token now =
     (if db_token \<noteq> token then Inr False
      else
        (case jwt_decode K token user_id of
           Inl (InvalidSignatureError m) \<Rightarrow> Inr False
         | Inl e \<Rightarrow> Inl e
         | Inr jwt_text \<Rightarrow>
             (case dict_get jwt_text ''timestamp'' of
                None \<Rightarrow> Inr False
              | Some JNull \<Rightarrow> Inr False
              | Some (JNum ts) \<Rightarrow> Inr (now - ts \<le> token_lifetime)
              | Some (JBool b) \<Rightarrow> Inr (now - of_bool b \<le> token_lifetime)
              | Some (JStr s) \<Rightarrow>
                  Inl (TypeError ''unsupported operand type(s) for -''))))"

section \<open>The document store\<close>

text \<open>
  The documents of the four collections the code touches. A user document may lack
  \<^verbatim>\<open>password\<close>, \<^verbatim>\<open>token\<close> or \<^verbatim>\<open>terminal\<close>: the code reads them with \<^verbatim>\<open>dict.get\<close>.
  An order document always has its \<^verbatim>\<open>status\<close>, as the data model says (the code reads
  it with \<^verbatim>\<open>order['status']\<close>); orders are written by code outside these sources.
\<close>

record user_doc =
  ud_user_id :: string
  ud_password :: "string option"
  ud_balance :: int
  ud_token :: "token option"
  ud_terminal :: "string option"

record user_store_doc =
  us_store_id :: string
  us_user_id :: string

record book_doc =
  bd_store_id :: string
  bd_book_id :: string
  bd_book_info :: string
  bd_stock_level :: int

record order_doc =
  od_order_id :: string
  od_status :: string

text \<open>
  \<^verbatim>\<open>self.conn\<close>: the collections \<^verbatim>\<open>user\<close>, \<^verbatim>\<open>user_store\<close>, \<^verbatim>\<open>store\<close> and
  \<^verbatim>\<open>order_history\<close>, each a list in insertion order.
\<close>

record db =
  coll_user :: "user_doc list"
  coll_user_store :: "user_store_doc list"
  coll_store :: "book_doc list"
  coll_order_history :: "order_doc list"

text \<open>
  A driver call may raise \<^verbatim>\<open>PyMongoError\<close>. An operation takes a schedule \<open>f\<close>:
  \<open>f i = Some m\<close> says that the \<open>i\<close>-th driver call the operation can make raises
  \<^verbatim>\<open>PyMongoError(m)\<close>. A call that raises changes nothing.
\<close>

type_synonym faults = "nat \<Rightarrow> string option"

definition no_faults :: faults where
  "no_faults = (\<lambda>i. None)"

text \<open>\<^verbatim>\<open>find_one(filter)\<close>: the first document that matches.\<close>

definition find_one :: "string option \<Rightarrow> 'a list \<Rightarrow> ('a \<Rightarrow> bool) \<Rightarrow> exn + 'a option" where
  "find_one fault coll flt =
     (case fault of Some m \<Rightarrow> Inl (PyMongoError m) | None \<Rightarrow> Inr (List.find flt coll))"

fun update_first :: "('a \<Rightarrow> bool) \<Rightarrow> ('a \<Rightarrow> 'a) \<Rightarrow> 'a list \<Rightarrow> 'a list" where
  "update_first flt upd [] = []"
| "update_first flt upd (x # xs) =
     (if flt x then upd x # xs else x # update_first flt upd xs)"

fun delete_first :: "('a \<Rightarrow> bool) \<Rightarrow> 'a list \<Rightarrow> 'a list" where
  "delete_first flt [] = []"
| "delete_first flt (x # xs) = (if flt x then xs else x # delete_first flt xs)"

definition matched :: "('a \<Rightarrow> bool) \<Rightarrow> 'a list \<Rightarrow> nat" where
  "matched flt coll = (if List.find flt coll = None then 0 else 1)"

text \<open>
  \<^verbatim>\<open>update_one(filter, update)\<close> changes the first matching document and reports
  \<^verbatim>\<open>matched_count\<close>; \<^verbatim>\<open>delete_one(filter)\<close> removes it and reports \<^verbatim>\<open>deleted_count\<close>;
  \<^verbatim>\<open>insert_one(doc)\<close> appends.
\<close>

definition update_one ::
  "string option \<Rightarrow> 'a list \<Rightarrow> ('a \<Rightarrow> bool) \<Rightarrow> ('a \<Rightarrow> 'a) \<Rightarrow> exn + (nat \<times> 'a list)" where
  "update_one fault coll flt upd =
     (case fault of
        Some m \<Rightarrow> Inl (PyMongoError m)
      | None \<Rightarrow> Inr (matched flt coll, update_first flt upd coll))"

definition delete_one ::
  "string option \<Rightarrow> 'a list \<Rightarrow> ('a \<Rightarrow> bool) \<Rightarrow> exn + (nat \<times> 'a list)" where
  "delete_one fault coll flt =
     (case fault of
        Some m \<Rightarrow> Inl (PyMongoError m)
      | None \<Rightarrow> Inr (matched flt coll, delete_first flt coll))"

definition insert_one :: "string option \<Rightarrow> 'a list \<Rightarrow> 'a \<Rightarrow> exn + 'a list" where
  "insert_one fault coll doc =
     (case fault of Some m \<Rightarrow> Inl (PyMongoError m) | None \<Rightarrow> Inr (coll @ [doc]))"

section \<open>The error catalogue and the connection helpers\<close>

text \<open>
  \<^verbatim>\<open>be/model/error.py\<close> is not among the sources, so its table is a parameter \<open>E\<close> of
  every operation: one entry for each function of \<^verbatim>\<open>error\<close> the code calls.
\<close>

record error_catalog =
  error_authorization_fail :: "int \<times> string"
  error_non_exist_user_id :: "string \<Rightarrow> int \<times> string"
  error_exist_user_id :: "string \<Rightarrow> int \<times> string"
  error_non_exist_store_id :: "string \<Rightarrow> int \<times> string"
  error_exist_store_id :: "string \<Rightarrow> int \<times> string"
  error_non_exist_book_id :: "string \<Rightarrow> int \<times> string"
  error_exist_book_id :: "string \<Rightarrow> int \<times> string"

text \<open>
  A catalogue keeps failure apart from success when none of its codes is 200
  (the spec: \<^verbatim>\<open>OK=200\<close>, and the distinction of success from semantic rejection must
  be preserved).
\<close>

definition catalog_ok :: "error_catalog \<Rightarrow> bool" where
  "catalog_ok E =
     (fst (error_authorization_fail E) \<noteq> 200 \<and>
      (\<forall>x. fst (error_non_exist_user_id E x) \<noteq> 200) \<and>
      (\<forall>x. fst (error_exist_user_id E x) \<noteq> 200) \<and>
      (\<forall>x. fst (error_non_exist_store_id E x) \<noteq> 200) \<and>
      (\<forall>x. fst (error_exist_store_id E x) \<noteq> 200) \<and>
      (\<forall>x. fst (error_non_exist_book_id E x) \<noteq> 200) \<and>
      (\<forall>x. fst (error_exist_book_id E x) \<noteq> 200))"

text \<open>
  Modelled from the spec: \<^verbatim>\<open>DBConn.user_id_exist\<close> of \<^verbatim>\<open>be/model/db_conn.py\<close>, which is
  not among the sources. The spec's existence check of a user: a user record with this
  \<^verbatim>\<open>user_id\<close> is in the store. It is one driver call.
\<close>

definition user_id_exist :: "string option \<Rightarrow> db \<Rightarrow> string \<Rightarrow> exn + bool" where
  "user_id_exist fault d user_id =
     (case find_one fault (coll_user d) (\<lambda>u. ud_user_id u = user_id) of
        Inl e \<Rightarrow> Inl e
      | Inr r \<Rightarrow> Inr (r \<noteq> None))"

text \<open>
  Modelled from the spec: \<^verbatim>\<open>DBConn.store_id_exist\<close> of \<^verbatim>\<open>be/model/db_conn.py\<close>, which is
  not among the sources. The spec's existence check of a shop: an ownership record
  \<^verbatim>\<open>{store_id, user_id}\<close> with this \<^verbatim>\<open>store_id\<close> is in the store.
\<close>

definition store_id_exist :: "string option \<Rightarrow> db \<Rightarrow> string \<Rightarrow> exn + bool" where
  "store_id_exist fault d store_id =
     (case find_one fault (coll_user_store d) (\<lambda>s. us_store_id s = store_id) of
        Inl e \<Rightarrow> Inl e
      | Inr r \<Rightarrow> Inr (r \<noteq> None))"

text \<open>
  Modelled from the spec: \<^verbatim>\<open>DBConn.book_id_exist\<close> of \<^verbatim>\<open>be/model/db_conn.py\<close>, which is
  not among the sources. The spec's existence check of a listing: a book listing with
  this \<^verbatim>\<open>(store_id, book_id)\<close> is in the store.
\<close>

definition book_id_exist :: "string option \<Rightarrow> db \<Rightarrow> string \<Rightarrow> string \<Rightarrow> exn + bool" where
  "book_id_exist fault d store_id book_id =
     (case find_one fault (coll_store d)
             (\<lambda>b. bd_store_id b = store_id \<and> bd_book_id b = book_id) of
        Inl e \<Rightarrow> Inl e
      | Inr r \<Rightarrow> Inr (r \<noteq> None))"

text \<open>
  The two shapes of handler the operations end with. A result is the value returned
  or the exception raised, paired with the store the operation leaves.
\<close>

type_synonym 'a outcome = "(exn + 'a) \<times> db"

text \<open>\<^verbatim>\<open>except pymongo.errors.PyMongoError as e: return 528, str(e)\<close>, on its own.\<close>

definition except_PyMongoError :: "(string \<Rightarrow> 'a) \<Rightarrow> 'a outcome \<Rightarrow> 'a outcome" where
  "except_PyMongoError h r =
     (case r of
        (Inl (PyMongoError m), d) \<Rightarrow> (Inr (h m), d)
      | (Inl e, d) \<Rightarrow> (Inl e, d)
      | (Inr v, d) \<Rightarrow> (Inr v, d))"

text \<open>
  The same handler followed by \<^verbatim>\<open>except Exception as e\<close> (or \<^verbatim>\<open>BaseException\<close>), the
  first returning with 528 and the second with 530.
\<close>

definition except_PyMongoError_Exception ::
  "(string \<Rightarrow> 'a) \<Rightarrow> (string \<Rightarrow> 'a) \<Rightarrow> 'a outcome \<Rightarrow> 'a outcome" where
  "except_PyMongoError_Exception h528 h530 r =
     (case r of
        (Inl (PyMongoError m), d) \<Rightarrow> (Inr (h528 m), d)
      | (Inl e, d) \<Rightarrow> (Inr (h530 (str_exn e)), d)
      | (Inr v, d) \<Rightarrow> (Inr v, d))"

section \<open>Accounts: \<^verbatim>\<open>be/model/user.py\<close>\<close>

text \<open>
  \<^verbatim>\<open>User.register(user_id, password)\<close>. \<open>tstr\<close> is \<^verbatim>\<open>str(time.time())\<close> at the terminal
  label, \<open>now\<close> the clock reading inside \<^verbatim>\<open>jwt_encode\<close>. Only \<^verbatim>\<open>PyMongoError\<close> is caught:
  what \<^verbatim>\<open>jwt_encode\<close> raises leaves the function. Driver calls: 0 the lookup, 1 the
  insert.
\<close>

definition register ::
  "key_policy \<Rightarrow> error_catalog \<Rightarrow> faults \<Rightarrow> db \<Rightarrow> string \<Rightarrow> string \<Rightarrow> string \<Rightarrow> real
     \<Rightarrow> (int \<times> string) outcome" where
  "register K E f d user_id password tstr now =
     except_PyMongoError (\<lambda>m. (528, m))
       (case find_one (f 0) (coll_user d) (\<lambda>u. ud_user_id u = user_id) of
          Inl e \<Rightarrow> (Inl e, d)
        | Inr (Some existing_user) \<Rightarrow> (Inr (error_exist_user_id E user_id), d)
        | Inr None \<Rightarrow>
            (let terminal = ''terminal_'' @ tstr
             in case jwt_encode K user_id terminal now of
                  Inl e \<Rightarrow> (Inl e, d)
                | Inr token \<Rightarrow>
                    (let user_doc = \<lparr>ud_user_id = user_id, ud_password = Some password,
                                     ud_balance = 0, ud_token = Some token,
                                     ud_terminal = Some terminal\<rparr>
                     in case insert_one (f 1) (coll_user d) user_doc of
                          Inl e \<Rightarrow> (Inl e, d)
                        | Inr users \<Rightarrow> (Inr (200, ''ok''), d\<lparr>coll_user := users\<rparr>))))"

text \<open>
  \<^verbatim>\<open>User.check_token(user_id, token)\<close>: no handler at all, so whatever the lookup or
  \<^verbatim>\<open>__check_token\<close> raises leaves the function. A missing \<^verbatim>\<open>token\<close> field reads as the
  empty string. Driver call 0 is the lookup.
\<close>

definition check_token ::
  "key_policy \<Rightarrow> error_catalog \<Rightarrow> faults \<Rightarrow> db \<Rightarrow> string \<Rightarrow> token \<Rightarrow> real
     \<Rightarrow> exn + (int \<times> string)" where
  "check_token K E f d user_id token now =
     (case find_one (f 0) (coll_user d) (\<lambda>u. ud_user_id u = user_id) of
        Inl e \<Rightarrow> Inl e
      | Inr None \<Rightarrow> Inr (error_authorization_fail E)
      | Inr (Some user) \<Rightarrow>
          (let db_token = (case ud_token user of None \<Rightarrow> Garbage [] | Some t \<Rightarrow> t)
           in case User__check_token K user_id db_token token now of
                Inl e \<Rightarrow> Inl e
              | Inr is_token_valid \<Rightarrow>
                  if \<not> is_token_valid then Inr (error_authorization_fail E)
                  else Inr (200, ''ok'')))"

text \<open>\<^verbatim>\<open>User.check_password(user_id, password)\<close>. Driver call 0 is the lookup.\<close>

definition check_password ::
  "error_catalog \<Rightarrow> faults \<Rightarrow> db \<Rightarrow> string \<Rightarrow> string \<Rightarrow> exn + (int \<times> string)" where
  "check_password E f d user_id password =
     (case find_one (f 0) (coll_user d) (\<lambda>u. ud_user_id u = user_id) of
        Inl (PyMongoError m) \<Rightarrow> Inr (528, m)
      | Inl e \<Rightarrow> Inl e
      | Inr None \<Rightarrow> Inr (error_authorization_fail E)
      | Inr (Some user) \<Rightarrow>
          if ud_password user \<noteq> Some password then Inr (error_authorization_fail E)
          else Inr (200, ''ok''))"

text \<open>
  \<^verbatim>\<open>login\<close> returns a triple, except where the update matches nothing: there it returns
  the pair of \<^verbatim>\<open>error.error_authorization_fail()\<close> as it is.
\<close>

datatype login_result = Tuple2 "int \<times> string" | Tuple3 "int \<times> string \<times> token"

text \<open>
  The operations that check and then write take \<open>race\<close>: what other callers did to the
  store between the check and the write (the identity when nobody did anything).
  \<^verbatim>\<open>User.login(user_id, password, terminal)\<close>: driver call 0 is the lookup of
  \<^verbatim>\<open>check_password\<close>, 1 the update.
\<close>

definition login ::
  "key_policy \<Rightarrow> error_catalog \<Rightarrow> faults \<Rightarrow> (db \<Rightarrow> db) \<Rightarrow> db \<Rightarrow> string \<Rightarrow> string \<Rightarrow> string
     \<Rightarrow> real \<Rightarrow> login_result outcome" where
  "login K E f race d user_id password terminal now =
     except_PyMongoError_Exception
       (\<lambda>m. Tuple3 (528, m, Garbage [])) (\<lambda>m. Tuple3 (530, m, Garbage []))
       (case check_password E f d user_id password of
          Inl e \<Rightarrow> (Inl e, d)
        | Inr (code, message) \<Rightarrow>
            if code \<noteq> 200 then (Inr (Tuple3 (code, message, Garbage [])), d)
            else
              (case jwt_encode K user_id terminal now of
                 Inl e \<Rightarrow> (Inl e, d)
               | Inr token \<Rightarrow>
                   (let d1 = race d
                    in case update_one (f 1) (coll_user d1) (\<lambda>u. ud_user_id u = user_id)
                              (\<lambda>u. u\<lparr>ud_token := Some token, ud_terminal := Some terminal\<rparr>) of
                         Inl e \<Rightarrow> (Inl e, d1)
                       | Inr (matched_count, users) \<Rightarrow>
                           if matched_count = 0
                           then (Inr (Tuple2 (error_authorization_fail E)), d1)
                           else (Inr (Tuple3 (200, ''ok'', token)), d1\<lparr>coll_user := users\<rparr>))))"

text \<open>
  \<^verbatim>\<open>User.logout(user_id, token)\<close>: \<open>now_check\<close> is the clock reading of the token check,
  \<open>tstr\<close> and \<open>now\<close> those of the new terminal label and token. Driver call 0 is the
  lookup of \<^verbatim>\<open>check_token\<close>, 1 the update.
\<close>

definition logout ::
  "key_policy \<Rightarrow> error_catalog \<Rightarrow> faults \<Rightarrow> (db \<Rightarrow> db) \<Rightarrow> db \<Rightarrow> string \<Rightarrow> token \<Rightarrow> real
     \<Rightarrow> string \<Rightarrow> real \<Rightarrow> (int \<times> string) outcome" where
  "logout K E f race d user_id token now_check tstr now =
     except_PyMongoError_Exception (\<lambda>m. (528, m)) (\<lambda>m. (530, m))
       (case check_token K E f d user_id token now_check of
          Inl e \<Rightarrow> (Inl e, d)
        | Inr (code, message) \<Rightarrow>
            if code \<noteq> 200 then (Inr (code, message), d)
            else
              (let terminal = ''terminal_'' @ tstr
               in case jwt_encode K user_id terminal now of
                    Inl e \<Rightarrow> (Inl e, d)
                  | Inr dummy_token \<Rightarrow>
                      (let d1 = race d
                       in case update_one (f 1) (coll_user d1) (\<lambda>u. ud_user_id u = user_id)
                                 (\<lambda>u. u\<lparr>ud_token := Some dummy_token,
                                        ud_terminal := Some terminal\<rparr>) of
                            Inl e \<Rightarrow> (Inl e, d1)
                          | Inr (matched_count, users) \<Rightarrow>
                              if matched_count = 0 then (Inr (error_authorization_fail E), d1)
                              else (Inr (200, ''ok''), d1\<lparr>coll_user := users\<rparr>))))"

text \<open>
  \<^verbatim>\<open>User.unregister(user_id, password)\<close>: driver call 0 is the lookup of
  \<^verbatim>\<open>check_password\<close>, 1 the delete.
\<close>

definition unregister ::
  "error_catalog \<Rightarrow> faults \<Rightarrow> (db \<Rightarrow> db) \<Rightarrow> db \<Rightarrow> string \<Rightarrow> string \<Rightarrow> (int \<times> string) outcome" where
  "unregister E f race d user_id password =
     except_PyMongoError_Exception (\<lambda>m. (528, m)) (\<lambda>m. (530, m))
       (case check_password E f d user_id password of
          Inl e \<Rightarrow> (Inl e, d)
        | Inr (code, message) \<Rightarrow>
            if code \<noteq> 200 then (Inr (code, message), d)
            else
              (let d1 = race d
               in case delete_one (f 1) (coll_user d1) (\<lambda>u. ud_user_id u = user_id) of
                    Inl e \<Rightarrow> (Inl e, d1)
                  | Inr (deleted_count, users) \<Rightarrow>
                      if deleted_count \<noteq> 1 then (Inr (error_authorization_fail E), d1)
                      else (Inr (200, ''ok''), d1\<lparr>coll_user := users\<rparr>)))"

text \<open>
  \<^verbatim>\<open>User.change_password(user_id, old_password, new_password)\<close>: the result of the
  update is dropped. Driver call 0 is the lookup of \<^verbatim>\<open>check_password\<close>, 1 the update.
\<close>

definition change_password ::
  "key_policy \<Rightarrow> error_catalog \<Rightarrow> faults \<Rightarrow> (db \<Rightarrow> db) \<Rightarrow> db \<Rightarrow> string \<Rightarrow> string \<Rightarrow> string
     \<Rightarrow> string \<Rightarrow> real \<Rightarrow> (int \<times> string) outcome" where
  "change_password K E f race d user_id old_password new_password tstr now =
     except_PyMongoError_Exception (\<lambda>m. (528, m)) (\<lambda>m. (530, m))
       (case check_password E f d user_id old_password of
          Inl e \<Rightarrow> (Inl e, d)
        | Inr (code, message) \<Rightarrow>
            if code \<noteq> 200 then (Inr (code, message), d)
            else
              (let terminal = ''terminal_'' @ tstr
               in case jwt_encode K user_id terminal now of
                    Inl e \<Rightarrow> (Inl e, d)
                  | Inr token \<Rightarrow>
                      (let d1 = race d
                       in case update_one (f 1) (coll_user d1) (\<lambda>u. ud_user_id u = user_id)
                                 (\<lambda>u. u\<lparr>ud_password := Some new_password,
                                        ud_token := Some token,
                                        ud_terminal := Some terminal\<rparr>) of
                            Inl e \<Rightarrow> (Inl e, d1)
                          | Inr (matched_count, users) \<Rightarrow>
                              (Inr (200, ''ok''), d1\<lparr>coll_user := users\<rparr>))))"

section \<open>Shops, listings and shipment: \<^verbatim>\<open>be/model/seller.py\<close>\<close>

text \<open>
  \<^verbatim>\<open>Seller.add_book(user_id, store_id, book_id, book_json_str, stock_level)\<close>. Driver
  calls: 0, 1 and 2 the three existence checks, 3 the insert.
\<close>

definition add_book ::
  "error_catalog \<Rightarrow> faults \<Rightarrow> db \<Rightarrow> string \<Rightarrow> string \<Rightarrow> string \<Rightarrow> string \<Rightarrow> int
     \<Rightarrow> (int \<times> string) outcome" where
  "add_book E f d user_id store_id book_id book_json_str stock_level =
     except_PyMongoError_Exception (\<lambda>m. (528, m)) (\<lambda>m. (530, m))
       (case user_id_exist (f 0) d user_id of
          Inl e \<Rightarrow> (Inl e, d)
        | Inr False \<Rightarrow> (Inr (error_non_exist_user_id E user_id), d)
        | Inr True \<Rightarrow>
       (case store_id_exist (f 1) d store_id of
          Inl e \<Rightarrow> (Inl e, d)
        | Inr False \<Rightarrow> (Inr (error_non_exist_store_id E store_id), d)
        | Inr True \<Rightarrow>
       (case book_id_exist (f 2) d store_id book_id of
          Inl e \<Rightarrow> (Inl e, d)
        | Inr True \<Rightarrow> (Inr (error_exist_book_id E book_id), d)
        | Inr False \<Rightarrow>
            (let book_doc = \<lparr>bd_store_id = store_id, bd_book_id = book_id,
                             bd_book_info = book_json_str, bd_stock_level = stock_level\<rparr>
             in case insert_one (f 3) (coll_store d) book_doc of
                  Inl e \<Rightarrow> (Inl e, d)
                | Inr books \<Rightarrow> (Inr (200, ''ok''), d\<lparr>coll_store := books\<rparr>)))))"

text \<open>
  \<^verbatim>\<open>Seller.add_stock_level(user_id, store_id, book_id, add_stock_level)\<close>: \<^verbatim>\<open>$inc\<close> adds
  the amount, of either sign. Driver calls: 0, 1 and 2 the checks, 3 the update.
\<close>

definition add_stock_level ::
  "error_catalog \<Rightarrow> faults \<Rightarrow> db \<Rightarrow> string \<Rightarrow> string \<Rightarrow> string \<Rightarrow> int \<Rightarrow> (int \<times> string) outcome" where
  "add_stock_level E f d user_id store_id book_id amount =
     except_PyMongoError_Exception (\<lambda>m. (528, m)) (\<lambda>m. (530, m))
       (case user_id_exist (f 0) d user_id of
          Inl e \<Rightarrow> (Inl e, d)
        | Inr False \<Rightarrow> (Inr (error_non_exist_user_id E user_id), d)
        | Inr True \<Rightarrow>
       (case store_id_exist (f 1) d store_id of
          Inl e \<Rightarrow> (Inl e, d)
        | Inr False \<Rightarrow> (Inr (error_non_exist_store_id E store_id), d)
        | Inr True \<Rightarrow>
       (case book_id_exist (f 2) d store_id book_id of
          Inl e \<Rightarrow> (Inl e, d)
        | Inr False \<Rightarrow> (Inr (error_non_exist_book_id E book_id), d)
        | Inr True \<Rightarrow>
            (case update_one (f 3) (coll_store d)
                    (\<lambda>b. bd_store_id b = store_id \<and> bd_book_id b = book_id)
                    (\<lambda>b. b\<lparr>bd_stock_level := bd_stock_level b + amount\<rparr>) of
               Inl e \<Rightarrow> (Inl e, d)
             | Inr (matched_count, books) \<Rightarrow> (Inr (200, ''ok''), d\<lparr>coll_store := books\<rparr>)))))"

text \<open>
  \<^verbatim>\<open>Seller.create_store(user_id, store_id)\<close>. Driver calls: 0 and 1 the checks, 2 the
  insert.
\<close>

definition create_store ::
  "error_catalog \<Rightarrow> faults \<Rightarrow> db \<Rightarrow> string \<Rightarrow> string \<Rightarrow> (int \<times> string) outcome" where
  "create_store E f d user_id store_id =
     except_PyMongoError_Exception (\<lambda>m. (528, m)) (\<lambda>m. (530, m))
       (case user_id_exist (f 0) d user_id of
          Inl e \<Rightarrow> (Inl e, d)
        | Inr False \<Rightarrow> (Inr (error_non_exist_user_id E user_id), d)
        | Inr True \<Rightarrow>
       (case store_id_exist (f 1) d store_id of
          Inl e \<Rightarrow> (Inl e, d)
        | Inr True \<Rightarrow> (Inr (error_exist_store_id E store_id), d)
        | Inr False \<Rightarrow>
            (let user_store_doc = \<lparr>us_store_id = store_id, us_user_id = user_id\<rparr>
             in case insert_one (f 2) (coll_user_store d) user_store_doc of
                  Inl e \<Rightarrow> (Inl e, d)
                | Inr stores \<Rightarrow> (Inr (200, ''ok''), d\<lparr>coll_user_store := stores\<rparr>))))"

text \<open>
  \<^verbatim>\<open>Seller.ship_order(user_id, store_id, order_id)\<close>: only \<^verbatim>\<open>PyMongoError\<close> is caught.
  A missing shop is answered with \<^verbatim>\<open>error.error_exist_store_id\<close>. Driver calls: 0 and 1
  the checks, 2 the lookup of the order, 3 the update.
\<close>

definition ship_order ::
  "error_catalog \<Rightarrow> faults \<Rightarrow> db \<Rightarrow> string \<Rightarrow> string \<Rightarrow> string \<Rightarrow> (int \<times> string) outcome" where
  "ship_order E f d user_id store_id order_id =
     except_PyMongoError (\<lambda>m. (528, m))
       (case user_id_exist (f 0) d user_id of
          Inl e \<Rightarrow> (Inl e, d)
        | Inr False \<Rightarrow> (Inr (error_non_exist_user_id E user_id), d)
        | Inr True \<Rightarrow>
       (case store_id_exist (f 1) d store_id of
          Inl e \<Rightarrow> (Inl e, d)
        | Inr False \<Rightarrow> (Inr (error_exist_store_id E store_id), d)
        | Inr True \<Rightarrow>
       (case find_one (f 2) (coll_order_history d) (\<lambda>x. od_order_id x = order_id) of
          Inl e \<Rightarrow> (Inl e, d)
        | Inr None \<Rightarrow> (Inr (400, ''Invalid order ID''), d)
        | Inr (Some order) \<Rightarrow>
            if od_status order \<noteq> ''paid'' then (Inr (400, ''Order is not paid''), d)
            else
              (case update_one (f 3) (coll_order_history d) (\<lambda>x. od_order_id x = order_id)
                      (\<lambda>x. x\<lparr>od_status := ''shipped''\<rparr>) of
                 Inl e \<Rightarrow> (Inl e, d)
               | Inr (matched_count, orders) \<Rightarrow>
                   (Inr (200, ''ok''), d\<lparr>coll_order_history := orders\<rparr>)))))"

section \<open>Calls, sequences of calls and sample data\<close>

text \<open>
  The operations that have semantic precondition failures (a missing or a duplicate
  entity, an order that is not paid), as values, so that a sequence of them can be run.
  The account operations other than \<^verbatim>\<open>register\<close> fail only with the authorization
  error, 528 or 530.
\<close>

datatype call =
    Register string string string real
  | AddBook string string string string int
  | AddStockLevel string string string int
  | CreateStore string string
  | ShipOrder string string string

fun run ::
  "key_policy \<Rightarrow> error_catalog \<Rightarrow> faults \<Rightarrow> db \<Rightarrow> call \<Rightarrow> (int \<times> string) outcome" where
  "run K E f d (Register user_id password tstr now) =
     register K E f d user_id password tstr now"
| "run K E f d (AddBook user_id store_id book_id book_json_str stock_level) =
     add_book E f d user_id store_id book_id book_json_str stock_level"
| "run K E f d (AddStockLevel user_id store_id book_id amount) =
     add_stock_level E f d user_id store_id book_id amount"
| "run K E f d (CreateStore user_id store_id) = create_store E f d user_id store_id"
| "run K E f d (ShipOrder user_id store_id order_id) =
     ship_order E f d user_id store_id order_id"

text \<open>The values the precondition checks of a call return, read off its \<^verbatim>\<open>return\<close>s.\<close>

fun semantic_failures :: "error_catalog \<Rightarrow> call \<Rightarrow> (int \<times> string) list" where
  "semantic_failures E (Register user_id password tstr now) = [error_exist_user_id E user_id]"
| "semantic_failures E (AddBook user_id store_id book_id book_json_str stock_level) =
     [error_non_exist_user_id E user_id, error_non_exist_store_id E store_id,
      error_exist_book_id E book_id]"
| "semantic_failures E (AddStockLevel user_id store_id book_id amount) =
     [error_non_exist_user_id E user_id, error_non_exist_store_id E store_id,
      error_non_exist_book_id E book_id]"
| "semantic_failures E (CreateStore user_id store_id) =
     [error_non_exist_user_id E user_id, error_exist_store_id E store_id]"
| "semantic_failures E (ShipOrder user_id store_id order_id) =
     [error_non_exist_user_id E user_id, error_exist_store_id E store_id,
      (400, ''Invalid order ID''), (400, ''Order is not paid'')]"

text \<open>A sequence of calls, each with the fault schedule it meets, run from left to right.\<close>

fun run_calls ::
  "key_policy \<Rightarrow> error_catalog \<Rightarrow> db \<Rightarrow> (faults \<times> call) list \<Rightarrow> db" where
  "run_calls K E d [] = d"
| "run_calls K E d ((f, c) # cs) = run_calls K E (snd (run K E f d c)) cs"

text \<open>Every listing's stock level is at least 0.\<close>

definition stock_nonneg :: "db \<Rightarrow> bool" where
  "stock_nonneg d = list_all (\<lambda>b. 0 \<le> bd_stock_level b) (coll_store d)"

text \<open>The stock argument of a call, where it has one, is at least 0.\<close>

fun nonneg_amount :: "call \<Rightarrow> bool" where
  "nonneg_amount (AddBook user_id store_id book_id book_json_str stock_level) = (0 \<le> stock_level)"
| "nonneg_amount (AddStockLevel user_id store_id book_id amount) = (0 \<le> amount)"
| "nonneg_amount c = True"

text \<open>The status of the order a lookup by \<^verbatim>\<open>order_id\<close> finds, if it finds one.\<close>

definition order_status :: "db \<Rightarrow> string \<Rightarrow> string option" where
  "order_status d order_id =
     map_option od_status (List.find (\<lambda>x. od_order_id x = order_id) (coll_order_history d))"

text \<open>
  Sample data for instantiating the theorems: a key policy that refuses the key
  \<^verbatim>\<open>ssh-rsa\<close> (as PyJWT does) and no other, a catalogue that numbers its entries, a
  store with one user, one shop, one listing and one paid order, and a race in which
  the user's record is deleted.
\<close>

definition refusal_text :: string where
  "refusal_text =
     ''The specified key is an asymmetric key or x509 certificate and'' @
     '' should not be used as an HMAC secret.''"

definition example_policy :: key_policy where
  "example_policy k = (if k = ''ssh-rsa'' then Some refusal_text else None)"

definition example_catalog :: error_catalog where
  "example_catalog =
     \<lparr>error_authorization_fail = (401, ''authorization fail.''),
      error_non_exist_user_id = (\<lambda>x. (511, ''non exist user id '' @ x)),
      error_exist_user_id = (\<lambda>x. (512, ''exist user id '' @ x)),
      error_non_exist_store_id = (\<lambda>x. (513, ''non exist store id '' @ x)),
      error_exist_store_id = (\<lambda>x. (514, ''exist store id '' @ x)),
      error_non_exist_book_id = (\<lambda>x. (515, ''non exist book id '' @ x)),
      error_exist_book_id = (\<lambda>x. (516, ''exist book id '' @ x))\<rparr>"

definition example_db :: db where
  "example_db =
     \<lparr>coll_user =
        [\<lparr>ud_user_id = ''u1'', ud_password = Some ''p1'', ud_balance = 0,
          ud_token = Some (signed_token ''u1'' ''t0'' 0), ud_terminal = Some ''t0''\<rparr>],
      coll_user_store = [\<lparr>us_store_id = ''s1'', us_user_id = ''u1''\<rparr>],
      coll_store =
        [\<lparr>bd_store_id = ''s1'', bd_book_id = ''b1'', bd_book_info = ''{}'',
          bd_stock_level = 10\<rparr>],
      coll_order_history = [\<lparr>od_order_id = ''o1'', od_status = ''paid''\<rparr>]\<rparr>"

definition user_deleted :: "db \<Rightarrow> db" where
  "user_deleted d = d\<lparr>coll_user := []\<rparr>"

text \<open>
  The sample store with a second user, who owns a second shop and whose record has no
  token.
\<close>

definition two_users_db :: db where
  "two_users_db = example_db\<lparr>
     coll_user := coll_user example_db @
       [\<lparr>ud_user_id = ''u2'', ud_password = Some ''p2'', ud_balance = 0,
         ud_token = None, ud_terminal = None\<rparr>],
     coll_user_store := coll_user_store example_db @
       [\<lparr>us_store_id = ''s2'', us_user_id = ''u2''\<rparr>]\<rparr>"

text \<open>A store whose one user has the user id \<^verbatim>\<open>ssh-rsa\<close>.\<close>

definition ssh_user_db :: db where
  "ssh_user_db =
     \<lparr>coll_user =
        [\<lparr>ud_user_id = ''ssh-rsa'', ud_password = Some ''p1'', ud_balance = 0,
          ud_token = None, ud_terminal = None\<rparr>],
      coll_user_store = [], coll_store = [], coll_order_history = []\<rparr>"

text \<open>The sample store after one login, and after a second login at the same clock reading.\<close>

definition after_first_login :: db where
  "after_first_login = snd (login example_policy example_catalog no_faults id example_db ''u1'' ''p1'' ''t1'' 100)"

definition after_second_login :: db where
  "after_second_login =
     snd (login example_policy example_catalog no_faults id after_first_login ''u1'' ''p1'' ''t1'' 100)"

section \<open>Facts about the driver\<close>

lemmas ex_defs = example_db_def example_catalog_def no_faults_def user_deleted_def
  two_users_db_def ssh_user_db_def example_policy_def refusal_text_def

lemmas drv_defs = find_one_def update_one_def delete_one_def insert_one_def matched_def
  except_PyMongoError_def except_PyMongoError_Exception_def
  user_id_exist_def store_id_exist_def book_id_exist_def jwt_encode_def Let_def

lemma no_faults_None: "no_faults i = None"
  by (simp add: no_faults_def)


lemma find_update_first:
  "(\<And>x. flt x \<Longrightarrow> flt (upd x)) \<Longrightarrow>
   List.find flt (update_first flt upd xs) = map_option upd (List.find flt xs)"
  by (induction xs) auto

lemma update_first_no_match: "List.find flt xs = None \<Longrightarrow> update_first flt upd xs = xs"
  by (induction xs) (auto split: if_splits)

lemma delete_first_no_match: "List.find flt xs = None \<Longrightarrow> delete_first flt xs = xs"
  by (induction xs) (auto split: if_splits)

lemma matched_zero: "matched flt coll = 0 \<longleftrightarrow> List.find flt coll = None"
  by (simp add: matched_def)

lemma matched_pos: "0 < matched flt coll \<longleftrightarrow> List.find flt coll \<noteq> None"
  by (simp add: matched_def)

lemma user_id_exist_fault:
  "user_id_exist None d u = Inr b \<Longrightarrow>
   user_id_exist fault d u = (case fault of Some m \<Rightarrow> Inl (PyMongoError m) | None \<Rightarrow> Inr b)"
  by (cases fault) (auto simp: user_id_exist_def find_one_def)

lemma store_id_exist_fault:
  "store_id_exist None d s = Inr b \<Longrightarrow>
   store_id_exist fault d s = (case fault of Some m \<Rightarrow> Inl (PyMongoError m) | None \<Rightarrow> Inr b)"
  by (cases fault) (auto simp: store_id_exist_def find_one_def)

lemma catalog_ok_example: "catalog_ok example_catalog"
  by (simp add: catalog_ok_def example_catalog_def)

section \<open>Token validation\<close>

lemma User__check_token_fresh:
  "K u = None \<Longrightarrow> now' - now \<le> token_lifetime \<Longrightarrow>
   User__check_token K u (signed_token u terminal now) (signed_token u terminal now) now'
     = Inr True"
  by (simp add: User__check_token_def jwt_decode_def signed_token_def dict_get_def)

lemma User__check_token_other:
  "db_token \<noteq> token \<Longrightarrow> User__check_token K u db_token token now = Inr False"
  by (simp add: User__check_token_def)

text \<open>
  What \<^verbatim>\<open>__check_token\<close> accepts: it answers \<^verbatim>\<open>True\<close> exactly when the presented token is
  the stored one, its signature verifies under the user id, and the payload has a
  numeric timestamp no older than the lifetime.
\<close>

lemma User__check_token_True_iff:
  "User__check_token K u db_token token now = Inr True \<longleftrightarrow>
     db_token = token \<and>
     (\<exists>p. jwt_decode K token u = Inr p \<and>
        (\<exists>ts. (dict_get p ''timestamp'' = Some (JNum ts) \<or>
               (\<exists>b. dict_get p ''timestamp'' = Some (JBool b) \<and> ts = of_bool b)) \<and>
              now - ts \<le> token_lifetime))"
  by (auto simp: User__check_token_def split: sum.splits exn.splits option.splits json.splits)

text \<open>
  C1. The claim: token validation returns true exactly when the presented token equals
  the stored one, the signature verifies, the payload has a timestamp and the token is
  not older than 3600 seconds, and in every other case it returns false rather than
  raising. The code breaks the last part: a stored token that is not a decodable JWS
  (the empty string that \<^verbatim>\<open>check_token\<close> reads for a missing field, say), presented
  unchanged, passes the equality test and makes \<^verbatim>\<open>jwt.decode\<close> raise \<^verbatim>\<open>DecodeError\<close>,
  which the handler for \<^verbatim>\<open>InvalidSignatureError\<close> does not catch.
\<close>

theorem User__check_token_raises_DecodeError:
  "User__check_token K user_id (Garbage s) (Garbage s) now =
     Inl (DecodeError ''Not enough segments'')"
  by (simp add: User__check_token_def jwt_decode_def)

section \<open>Persistence errors\<close>

text \<open>
  The sibling operations have the handler: where the first driver call raises, they
  return code 528 with the text of the error.
\<close>

lemma check_password_catches_PyMongoError:
  "check_password E (\<lambda>i. Some m) d user_id password = Inr (528, m)"
  by (simp add: check_password_def find_one_def)

lemma logout_catches_PyMongoError:
  "logout K E (\<lambda>i. Some m) race d user_id token now_check tstr now = (Inr (528, m), d)"
  by (simp add: logout_def check_token_def find_one_def except_PyMongoError_Exception_def)

lemma ship_order_catches_PyMongoError:
  "ship_order E (\<lambda>i. Some m) d user_id store_id order_id = (Inr (528, m), d)"
  by (simp add: ship_order_def user_id_exist_def find_one_def except_PyMongoError_def)

text \<open>
  C4. The claim: in every public operation, \<^verbatim>\<open>check_token\<close> included, a persistence
  error is caught and returned with code 528. \<^verbatim>\<open>check_token\<close> has no handler: when its
  lookup raises, the \<^verbatim>\<open>PyMongoError\<close> leaves the operation.
\<close>

theorem check_token_propagates_PyMongoError:
  "check_token K E (\<lambda>i. Some m) d user_id token now = Inl (PyMongoError m)"
  by (simp add: check_token_def find_one_def)

section \<open>Login and the token it returns\<close>

text \<open>
  C6. If \<^verbatim>\<open>login\<close> returns success with token \<open>T\<close>, then \<^verbatim>\<open>check_token\<close> with \<open>T\<close>,
  run on the store that \<^verbatim>\<open>login\<close> left, at a clock reading \<open>now'\<close> no more than the
  lifetime after the token's timestamp, and with its lookup not failing, returns
  success.
\<close>

theorem login_then_check_token:
  assumes "login K E f race d user_id password terminal now = (Inr (Tuple3 (200, ''ok'', T)), d')"
    and "g 0 = None" and "now' - now \<le> token_lifetime"
  shows "check_token K E g d' user_id T now' = Inr (200, ''ok'')"
proof -
  let ?flt = "\<lambda>u. ud_user_id u = user_id"
  let ?upd = "\<lambda>u. u\<lparr>ud_token := Some (signed_token user_id terminal now),
                       ud_terminal := Some terminal\<rparr>"
  from assms(1) have T: "T = signed_token user_id terminal now"
    and K: "K user_id = None"
    and d': "d' = (race d)\<lparr>coll_user := update_first ?flt ?upd (coll_user (race d))\<rparr>"
    and m: "List.find ?flt (coll_user (race d)) \<noteq> None"
    by (auto simp: login_def except_PyMongoError_Exception_def update_one_def matched_zero
        matched_pos jwt_encode_def Let_def
        split: sum.splits if_splits option.splits exn.splits prod.splits)
  then obtain x where x: "List.find ?flt (coll_user (race d)) = Some x" by auto
  have "List.find ?flt (coll_user d') = Some (?upd x)"
    unfolding d' using find_update_first[of ?flt ?upd "coll_user (race d)"] x by simp
  then show ?thesis
    using assms(2,3) K by (simp add: check_token_def find_one_def T User__check_token_fresh)
qed

theorem login_then_check_token_witness:
  "fst (login example_policy example_catalog no_faults id example_db ''u1'' ''p1'' ''t1'' 100) =
     Inr (Tuple3 (200, ''ok'', signed_token ''u1'' ''t1'' 100)) \<and>
   (3700::real) - 100 \<le> token_lifetime \<and>
   check_token example_policy example_catalog no_faults
     (snd (login example_policy example_catalog no_faults id example_db ''u1'' ''p1'' ''t1'' 100))
     ''u1'' (signed_token ''u1'' ''t1'' 100) 3700 = Inr (200, ''ok'')"
proof -
  have h1: "fst (login example_policy example_catalog no_faults id example_db ''u1'' ''p1'' ''t1'' 100) =
      Inr (Tuple3 (200, ''ok'', signed_token ''u1'' ''t1'' 100))"
    by (simp add: login_def check_password_def ex_defs drv_defs)
  have h: "login example_policy example_catalog no_faults id example_db ''u1'' ''p1'' ''t1'' 100 =
      (Inr (Tuple3 (200, ''ok'', signed_token ''u1'' ''t1'' 100)),
       snd (login example_policy example_catalog no_faults id example_db ''u1'' ''p1'' ''t1'' 100))"
    using h1 by (simp add: prod_eq_iff)
  have t: "(3700::real) - 100 \<le> token_lifetime" by (simp add: token_lifetime_def)
  from h1 t login_then_check_token[where g = no_faults, OF h no_faults_None t]
  show ?thesis by blast
qed

section \<open>Authorization failures\<close>

text \<open>
  Where the authorization failure is returned as the pair that
  \<^verbatim>\<open>error.error_authorization_fail()\<close> gives: by \<^verbatim>\<open>check_password\<close> for an absent user and
  for a password that differs, by \<^verbatim>\<open>check_token\<close> for an absent user and for a token
  other than the stored one.
\<close>

lemma authorization_fail_pair:
  "(f 0 = None \<and> List.find (\<lambda>x. ud_user_id x = u) (coll_user d) = None \<longrightarrow>
      check_password E f d u p = Inr (error_authorization_fail E)) \<and>
   (f 0 = None \<and> List.find (\<lambda>x. ud_user_id x = u) (coll_user d) = Some usr \<and>
    ud_password usr \<noteq> Some p \<longrightarrow>
      check_password E f d u p = Inr (error_authorization_fail E)) \<and>
   (f 0 = None \<and> List.find (\<lambda>x. ud_user_id x = u) (coll_user d) = None \<longrightarrow>
      check_token K E f d u t now = Inr (error_authorization_fail E)) \<and>
   (f 0 = None \<and> List.find (\<lambda>x. ud_user_id x = u) (coll_user d) = Some usr \<and>
    ud_token usr = Some t' \<and> t' \<noteq> t \<longrightarrow>
      check_token K E f d u t now = Inr (error_authorization_fail E))"
  by (simp add: check_password_def check_token_def find_one_def User__check_token_other)

text \<open>
  C8. The claim: every cause of an authorization failure gives the identical result,
  so that a caller cannot tell from the result which check failed. The code breaks it
  in two places. \<^verbatim>\<open>login\<close> answers a wrong password with the triple of code, message
  and empty token, and an update that matched no record with the bare pair of
  \<^verbatim>\<open>error.error_authorization_fail()\<close>: the two results differ in shape, against the
  triple that the signature of \<^verbatim>\<open>login\<close> and each of its other returns give. And
  \<^verbatim>\<open>check_token\<close>, given an invalid token that equals an undecodable stored one (the
  empty token against a record without token), returns no pair at all: \<^verbatim>\<open>DecodeError\<close>
  leaves it. Evaluated on the sample data: user \<^verbatim>\<open>u1\<close> with a wrong password; user
  \<^verbatim>\<open>u1\<close> with the right password, the record deleted between check and update; user
  \<^verbatim>\<open>u2\<close>, whose record has no token, presenting the empty token.
\<close>

theorem authorization_failures_distinguishable:
  "fst (login example_policy example_catalog no_faults id example_db ''u1'' ''wrong'' ''t1'' 5)
     = Inr (Tuple3 (401, ''authorization fail.'', Garbage [])) \<and>
   fst (login example_policy example_catalog no_faults user_deleted example_db
          ''u1'' ''p1'' ''t1'' 5)
     = Inr (Tuple2 (401, ''authorization fail.'')) \<and>
   fst (login example_policy example_catalog no_faults id example_db ''u1'' ''wrong'' ''t1'' 5)
     \<noteq> fst (login example_policy example_catalog no_faults user_deleted example_db
            ''u1'' ''p1'' ''t1'' 5) \<and>
   check_token example_policy example_catalog no_faults two_users_db ''u2'' (Garbage []) 5
     = Inl (DecodeError ''Not enough segments'')"
proof -
  have a: "fst (login example_policy example_catalog no_faults id example_db
      ''u1'' ''wrong'' ''t1'' 5) = Inr (Tuple3 (401, ''authorization fail.'', Garbage []))"
    by (simp add: login_def check_password_def ex_defs drv_defs)
  have b: "fst (login example_policy example_catalog no_faults user_deleted example_db
      ''u1'' ''p1'' ''t1'' 5) = Inr (Tuple2 (401, ''authorization fail.''))"
    by (simp add: login_def check_password_def ex_defs drv_defs)
  have c: "check_token example_policy example_catalog no_faults two_users_db ''u2''
      (Garbage []) 5 = Inl (DecodeError ''Not enough segments'')"
    by (simp add: check_token_def User__check_token_def jwt_decode_def ex_defs drv_defs)
  from a b c show ?thesis by simp
qed

section \<open>The update of \<^verbatim>\<open>change_password\<close>\<close>

text \<open>
  C9, as the code has it. Where \<^verbatim>\<open>check_password\<close> succeeds and the update raises
  nothing, what \<^verbatim>\<open>change_password\<close> returns depends on the key only. If the library
  accepts the user id as key, it returns success whatever happened to the store in
  between: when the user's record is gone at the update it still returns success and
  writes nothing, while \<^verbatim>\<open>login\<close>, \<^verbatim>\<open>unregister\<close> and (after a successful token check)
  \<^verbatim>\<open>logout\<close> in the same situation return the authorization failure. If the library
  refuses the user id as key, it returns code 530 with the text of the error and
  writes nothing.
\<close>

theorem change_password_ignores_update_result:
  assumes "check_password E f d u old = Inr (200, ''ok'')" and "f 1 = None"
  shows
    "(K u = None \<longrightarrow>
        fst (change_password K E f race d u old new tstr now) = Inr (200, ''ok'') \<and>
        (List.find (\<lambda>x. ud_user_id x = u) (coll_user (race d)) = None \<longrightarrow>
           snd (change_password K E f race d u old new tstr now) = race d \<and>
           fst (login K E f race d u old terminal now') =
             Inr (Tuple2 (error_authorization_fail E)) \<and>
           fst (unregister E f race d u old) = Inr (error_authorization_fail E) \<and>
           (check_token K E f d u token now_check = Inr (200, ''ok'') \<longrightarrow>
              fst (logout K E f race d u token now_check tstr now) =
                Inr (error_authorization_fail E)))) \<and>
     (K u = Some m \<longrightarrow>
        change_password K E f race d u old new tstr now = (Inr (530, m), d))"
  using assms
  by (simp add: change_password_def login_def unregister_def logout_def update_one_def
      delete_one_def except_PyMongoError_Exception_def jwt_encode_def Let_def matched_def
      update_first_no_match)

theorem change_password_ignores_update_result_witness:
  "check_password example_catalog no_faults example_db ''u1'' ''p1'' = Inr (200, ''ok'') \<and>
   example_policy ''u1'' = None \<and>
   List.find (\<lambda>x. ud_user_id x = ''u1'') (coll_user (user_deleted example_db)) = None \<and>
   check_token example_policy example_catalog no_faults example_db ''u1''
     (signed_token ''u1'' ''t0'' 0) 50 = Inr (200, ''ok'') \<and>
   change_password example_policy example_catalog no_faults user_deleted example_db
     ''u1'' ''p1'' ''p2'' ''5.0'' 100 = (Inr (200, ''ok''), user_deleted example_db) \<and>
   fst (login example_policy example_catalog no_faults user_deleted example_db
          ''u1'' ''p1'' ''t1'' 100)
     = Inr (Tuple2 (error_authorization_fail example_catalog)) \<and>
   fst (unregister example_catalog no_faults user_deleted example_db ''u1'' ''p1'')
     = Inr (error_authorization_fail example_catalog) \<and>
   fst (logout example_policy example_catalog no_faults user_deleted example_db ''u1''
          (signed_token ''u1'' ''t0'' 0) 50 ''5.0'' 100)
     = Inr (error_authorization_fail example_catalog) \<and>
   check_password example_catalog no_faults ssh_user_db ''ssh-rsa'' ''p1'' = Inr (200, ''ok'') \<and>
   example_policy ''ssh-rsa'' = Some refusal_text \<and>
   change_password example_policy example_catalog no_faults id ssh_user_db
     ''ssh-rsa'' ''p1'' ''p2'' ''5.0'' 100 = (Inr (530, refusal_text), ssh_user_db)"
proof -
  have a: "check_password example_catalog no_faults example_db ''u1'' ''p1'' = Inr (200, ''ok'')"
    by (simp add: check_password_def ex_defs drv_defs)
  have k: "example_policy ''u1'' = None"
    by (simp add: example_policy_def)
  have c: "List.find (\<lambda>x. ud_user_id x = ''u1'') (coll_user (user_deleted example_db)) = None"
    by (simp add: ex_defs)
  have t: "check_token example_policy example_catalog no_faults example_db ''u1''
      (signed_token ''u1'' ''t0'' 0) 50 = Inr (200, ''ok'')"
    by (simp add: check_token_def find_one_def no_faults_def example_db_def k
        User__check_token_fresh token_lifetime_def)
  have a': "check_password example_catalog no_faults ssh_user_db ''ssh-rsa'' ''p1''
      = Inr (200, ''ok'')"
    by (simp add: check_password_def ex_defs drv_defs)
  have k': "example_policy ''ssh-rsa'' = Some refusal_text"
    by (simp add: example_policy_def)
  note w = change_password_ignores_update_result[where K = example_policy
      and race = user_deleted and new = "''p2''" and tstr = "''5.0''" and now = 100
      and terminal = "''t1''" and now' = 100 and token = "signed_token ''u1'' ''t0'' 0"
      and now_check = 50, OF a no_faults_None]
  note w' = change_password_ignores_update_result[where K = example_policy
      and race = id and new = "''p2''" and tstr = "''5.0''" and now = 100
      and m = refusal_text, OF a' no_faults_None]
  from w k c t have 1: "change_password example_policy example_catalog no_faults user_deleted
      example_db ''u1'' ''p1'' ''p2'' ''5.0'' 100 = (Inr (200, ''ok''), user_deleted example_db)"
    and 2: "fst (login example_policy example_catalog no_faults user_deleted example_db
          ''u1'' ''p1'' ''t1'' 100) = Inr (Tuple2 (error_authorization_fail example_catalog))"
    and 3: "fst (unregister example_catalog no_faults user_deleted example_db ''u1'' ''p1'')
      = Inr (error_authorization_fail example_catalog)"
    and 4: "fst (logout example_policy example_catalog no_faults user_deleted example_db ''u1''
          (signed_token ''u1'' ''t0'' 0) 50 ''5.0'' 100)
      = Inr (error_authorization_fail example_catalog)"
    by (simp_all add: prod_eq_iff)
  from w' k' have 5: "change_password example_policy example_catalog no_faults id ssh_user_db
      ''ssh-rsa'' ''p1'' ''p2'' ''5.0'' 100 = (Inr (530, refusal_text), ssh_user_db)"
    by simp
  from a k c t 1 2 3 4 a' k' 5 show ?thesis by blast
qed

text \<open>
  C9 as stated fails for a user id that the library refuses as key: the password check
  succeeds, no driver call raises, and \<^verbatim>\<open>change_password\<close> returns code 530, not
  success.
\<close>

theorem change_password_refused_key_returns_530:
  "check_password example_catalog no_faults ssh_user_db ''ssh-rsa'' ''p1'' = Inr (200, ''ok'') \<and>
   change_password example_policy example_catalog no_faults id ssh_user_db
     ''ssh-rsa'' ''p1'' ''p2'' ''5.0'' 100 = (Inr (530, refusal_text), ssh_user_db) \<and>
   fst (change_password example_policy example_catalog no_faults id ssh_user_db
     ''ssh-rsa'' ''p1'' ''p2'' ''5.0'' 100) \<noteq> Inr (200, ''ok'')"
  by (simp add: change_password_def check_password_def ex_defs drv_defs)

section \<open>Shipment\<close>

lemma ship_order_eval:
  assumes "f 0 = None" "f 1 = None" "f 2 = None" "f 3 = None"
  shows "ship_order E f d u s oid =
    (if user_id_exist None d u \<noteq> Inr True then (Inr (error_non_exist_user_id E u), d)
     else if store_id_exist None d s \<noteq> Inr True then (Inr (error_exist_store_id E s), d)
     else case order_status d oid of
            None \<Rightarrow> (Inr (400, ''Invalid order ID''), d)
          | Some st \<Rightarrow>
              if st \<noteq> ''paid'' then (Inr (400, ''Order is not paid''), d)
              else (Inr (200, ''ok''),
                    d\<lparr>coll_order_history :=
                        update_first (\<lambda>x. od_order_id x = oid) (\<lambda>x. x\<lparr>od_status := ''shipped''\<rparr>)
                          (coll_order_history d)\<rparr>))"
  using assms
  by (auto simp: ship_order_def drv_defs order_status_def split: option.splits)

lemma order_status_shipped:
  "order_status d oid = Some st \<Longrightarrow>
   order_status (d\<lparr>coll_order_history :=
        update_first (\<lambda>x. od_order_id x = oid) (\<lambda>x. x\<lparr>od_status := ''shipped''\<rparr>)
          (coll_order_history d)\<rparr>) oid = Some ''shipped''"
  by (auto simp: order_status_def find_update_first)

text \<open>
  C3. With a catalogue whose codes are not 200 and a store that raises nothing,
  \<^verbatim>\<open>ship_order\<close> succeeds exactly when the user exists, the shop exists and the order
  exists with status \<^verbatim>\<open>paid\<close>; then the order's status is \<^verbatim>\<open>shipped\<close> afterwards and a
  second call on the resulting store fails with "Order is not paid". In the order of
  the checks: for an existing user a missing shop gives \<^verbatim>\<open>error_exist_store_id\<close>; with
  user and shop present a missing order gives "Invalid order ID" and a status other
  than \<^verbatim>\<open>paid\<close> gives "Order is not paid"; each of these leaves the store as it was.
\<close>

theorem ship_order_paid_to_shipped:
  assumes "catalog_ok E" and "f 0 = None" "f 1 = None" "f 2 = None" "f 3 = None"
  shows
    "(fst (ship_order E f d u s oid) = Inr (200, ''ok'') \<longleftrightarrow>
        user_id_exist None d u = Inr True \<and> store_id_exist None d s = Inr True \<and>
        order_status d oid = Some ''paid'') \<and>
     (fst (ship_order E f d u s oid) = Inr (200, ''ok'') \<longrightarrow>
        order_status (snd (ship_order E f d u s oid)) oid = Some ''shipped'' \<and>
        ship_order E f (snd (ship_order E f d u s oid)) u s oid =
          (Inr (400, ''Order is not paid''), snd (ship_order E f d u s oid))) \<and>
     (user_id_exist None d u = Inr True \<and> store_id_exist None d s \<noteq> Inr True \<longrightarrow>
        ship_order E f d u s oid = (Inr (error_exist_store_id E s), d)) \<and>
     (user_id_exist None d u = Inr True \<and> store_id_exist None d s = Inr True \<and>
      order_status d oid = None \<longrightarrow>
        ship_order E f d u s oid = (Inr (400, ''Invalid order ID''), d)) \<and>
     (user_id_exist None d u = Inr True \<and> store_id_exist None d s = Inr True \<and>
      order_status d oid = Some st \<and> st \<noteq> ''paid'' \<longrightarrow>
        ship_order E f d u s oid = (Inr (400, ''Order is not paid''), d))"
proof -
  note ev = ship_order_eval[OF assms(2-5)]
  have no200: "error_non_exist_user_id E u \<noteq> (200, ''ok'')"
    "error_exist_store_id E s \<noteq> (200, ''ok'')"
  proof -
    have "fst (error_non_exist_user_id E u) \<noteq> 200" "fst (error_exist_store_id E s) \<noteq> 200"
      using assms(1) by (simp_all add: catalog_ok_def)
    then show "error_non_exist_user_id E u \<noteq> (200, ''ok'')"
      "error_exist_store_id E s \<noteq> (200, ''ok'')"
      by auto
  qed
  have A: "fst (ship_order E f d u s oid) = Inr (200, ''ok'') \<longleftrightarrow>
        user_id_exist None d u = Inr True \<and> store_id_exist None d s = Inr True \<and>
        order_status d oid = Some ''paid''"
    using no200 by (auto simp: ev split: option.splits)
  have B: "order_status (snd (ship_order E f d u s oid)) oid = Some ''shipped'' \<and>
        ship_order E f (snd (ship_order E f d u s oid)) u s oid =
          (Inr (400, ''Order is not paid''), snd (ship_order E f d u s oid))"
    if ok: "fst (ship_order E f d u s oid) = Inr (200, ''ok'')"
  proof -
    from ok A have c: "user_id_exist None d u = Inr True" "store_id_exist None d s = Inr True"
      "order_status d oid = Some ''paid''" by auto
    let ?d' = "d\<lparr>coll_order_history :=
                   update_first (\<lambda>x. od_order_id x = oid) (\<lambda>x. x\<lparr>od_status := ''shipped''\<rparr>)
                     (coll_order_history d)\<rparr>"
    have d': "snd (ship_order E f d u s oid) = ?d'" using c by (simp add: ev)
    have st: "order_status ?d' oid = Some ''shipped''" by (rule order_status_shipped[OF c(3)])
    have u: "user_id_exist None ?d' u = Inr True" "store_id_exist None ?d' s = Inr True"
      using c(1,2) by (simp_all add: user_id_exist_def store_id_exist_def)
    show ?thesis unfolding d'
      using st u by (simp add: ship_order_eval[OF assms(2-5), of E ?d'])
  qed
  show ?thesis using A B by (auto simp: ev)
qed

theorem ship_order_paid_to_shipped_witness:
  "catalog_ok example_catalog \<and>
   fst (ship_order example_catalog no_faults example_db ''u1'' ''s1'' ''o1'') = Inr (200, ''ok'') \<and>
   order_status (snd (ship_order example_catalog no_faults example_db ''u1'' ''s1'' ''o1'')) ''o1''
     = Some ''shipped'' \<and>
   fst (ship_order example_catalog no_faults
         (snd (ship_order example_catalog no_faults example_db ''u1'' ''s1'' ''o1''))
         ''u1'' ''s1'' ''o1'') = Inr (400, ''Order is not paid'') \<and>
   fst (ship_order example_catalog no_faults example_db ''u1'' ''s9'' ''o1'')
     = Inr (error_exist_store_id example_catalog ''s9'') \<and>
   fst (ship_order example_catalog no_faults example_db ''u1'' ''s1'' ''o9'')
     = Inr (400, ''Invalid order ID'')"
proof -
  note w = ship_order_paid_to_shipped[where E = example_catalog and f = no_faults
      and d = example_db, OF catalog_ok_example no_faults_None no_faults_None
      no_faults_None no_faults_None]
  have u: "user_id_exist None example_db ''u1'' = Inr True"
    by (simp add: ex_defs drv_defs)
  have s: "store_id_exist None example_db ''s1'' = Inr True"
    by (simp add: ex_defs drv_defs)
  have s9: "store_id_exist None example_db ''s9'' \<noteq> Inr True"
    by (simp add: ex_defs drv_defs)
  have o1: "order_status example_db ''o1'' = Some ''paid''"
    by (simp add: ex_defs order_status_def)
  have o9: "order_status example_db ''o9'' = None"
    by (simp add: ex_defs order_status_def)
  show ?thesis
    using catalog_ok_example
      w[where u = "''u1''" and s = "''s1''" and oid = "''o1''"]
      w[where u = "''u1''" and s = "''s9''" and oid = "''o1''"]
      w[where u = "''u1''" and s = "''s1''" and oid = "''o9''"]
      u s s9 o1 o9
    by simp
qed

text \<open>
  C10. \<^verbatim>\<open>ship_order\<close> only asks whether the user and the shop exist: for any two
  existing users and any two existing shops the two calls on one order return the same
  result and leave the same store, under every fault schedule.
\<close>

theorem ship_order_ignores_ownership:
  assumes "user_id_exist None d u1 = Inr True" "user_id_exist None d u2 = Inr True"
    "store_id_exist None d s1 = Inr True" "store_id_exist None d s2 = Inr True"
  shows "ship_order E f d u1 s1 order_id = ship_order E f d u2 s2 order_id"
  unfolding ship_order_def
  by (cases "f 0"; cases "f 1";
      simp add: user_id_exist_fault[OF assms(1)] user_id_exist_fault[OF assms(2)]
      store_id_exist_fault[OF assms(3)] store_id_exist_fault[OF assms(4)])

theorem ship_order_ignores_ownership_witness:
  "user_id_exist None two_users_db ''u1'' = Inr True \<and>
   user_id_exist None two_users_db ''u2'' = Inr True \<and>
   store_id_exist None two_users_db ''s1'' = Inr True \<and>
   store_id_exist None two_users_db ''s2'' = Inr True \<and>
   ship_order example_catalog no_faults two_users_db ''u1'' ''s1'' ''o1'' =
     ship_order example_catalog no_faults two_users_db ''u2'' ''s2'' ''o1'' \<and>
   fst (ship_order example_catalog no_faults two_users_db ''u2'' ''s2'' ''o1'') = Inr (200, ''ok'')"
proof -
  have a: "user_id_exist None two_users_db ''u1'' = Inr True"
    by (simp add: ex_defs drv_defs)
  have b: "user_id_exist None two_users_db ''u2'' = Inr True"
    by (simp add: ex_defs drv_defs)
  have c: "store_id_exist None two_users_db ''s1'' = Inr True"
    by (simp add: ex_defs drv_defs)
  have e: "store_id_exist None two_users_db ''s2'' = Inr True"
    by (simp add: ex_defs drv_defs)
  have g: "fst (ship_order example_catalog no_faults two_users_db ''u2'' ''s2'' ''o1'')
      = Inr (200, ''ok'')"
    by (simp add: ship_order_def ex_defs drv_defs)
  show ?thesis
    using a b c e g
      ship_order_ignores_ownership[where E = example_catalog and f = no_faults
        and order_id = "''o1''", OF a b c e]
    by simp
qed

section \<open>Rotation of the token\<close>

lemma signed_token_eq_iff:
  "signed_token u t now = signed_token u' t' now' \<longleftrightarrow> u = u' \<and> t = t' \<and> now = now'"
  by (auto simp: signed_token_def)

lemma check_token_after_overwrite:
  assumes "g 0 = None" and "T \<noteq> T'"
    and "\<And>x. ud_token (upd x) = Some T'" and "\<And>x. ud_user_id (upd x) = ud_user_id x"
  shows "check_token K E g (d_login\<lparr>coll_user := update_first (\<lambda>x. ud_user_id x = u) upd (coll_user d_login)\<rparr>)
           u T now' = Inr (error_authorization_fail E)"
proof -
  have f: "List.find (\<lambda>x. ud_user_id x = u) (update_first (\<lambda>x. ud_user_id x = u) upd (coll_user d_login))
      = map_option upd (List.find (\<lambda>x. ud_user_id x = u) (coll_user d_login))"
    by (rule find_update_first) (simp add: assms(4))
  show ?thesis
    using assms(1,2)
    by (cases "List.find (\<lambda>x. ud_user_id x = u) (coll_user d_login)")
       (simp_all add: check_token_def find_one_def f assms(3) User__check_token_other)
qed

lemma check_token_absent:
  "g 0 = None \<Longrightarrow> List.find (\<lambda>x. ud_user_id x = u) (coll_user d) = None \<Longrightarrow>
   check_token K E g d u T now' = Inr (error_authorization_fail E)"
  by (simp add: check_token_def find_one_def)

lemma login_success:
  assumes "login K E f race d u p terminal now = (Inr (Tuple3 (200, ''ok'', T')), d')"
  shows "T' = signed_token u terminal now \<and>
    d' = (race d)\<lparr>coll_user := update_first (\<lambda>x. ud_user_id x = u)
        (\<lambda>x. x\<lparr>ud_token := Some (signed_token u terminal now), ud_terminal := Some terminal\<rparr>)
        (coll_user (race d))\<rparr>"
  using assms
  by (auto simp: login_def except_PyMongoError_Exception_def update_one_def jwt_encode_def
        Let_def
        split: sum.splits if_splits option.splits exn.splits prod.splits)

lemma change_password_success:
  assumes "change_password K E f race d u old new tstr now = (Inr (200, ''ok''), d')"
  shows "d' = (race d)\<lparr>coll_user := update_first (\<lambda>x. ud_user_id x = u)
        (\<lambda>x. x\<lparr>ud_password := Some new, ud_token := Some (signed_token u (''terminal_'' @ tstr) now),
              ud_terminal := Some (''terminal_'' @ tstr)\<rparr>)
        (coll_user (race d))\<rparr>"
  using assms
  by (auto simp: change_password_def except_PyMongoError_Exception_def update_one_def
        jwt_encode_def Let_def
        split: sum.splits if_splits option.splits exn.splits prod.splits)

lemma logout_success:
  assumes "logout K E f race d u T now_check tstr now = (Inr (200, ''ok''), d')"
  shows "d' = (race d)\<lparr>coll_user := update_first (\<lambda>x. ud_user_id x = u)
        (\<lambda>x. x\<lparr>ud_token := Some (signed_token u (''terminal_'' @ tstr) now),
              ud_terminal := Some (''terminal_'' @ tstr)\<rparr>)
        (coll_user (race d))\<rparr>"
  using assms
  by (auto simp: logout_def except_PyMongoError_Exception_def update_one_def jwt_encode_def
        Let_def matched_zero update_first_no_match
        split: sum.splits if_splits option.splits exn.splits prod.splits)

lemma after_first_login_eq:
  "after_first_login = example_db\<lparr>coll_user :=
     [\<lparr>ud_user_id = ''u1'', ud_password = Some ''p1'', ud_balance = 0,
       ud_token = Some (signed_token ''u1'' ''t1'' 100), ud_terminal = Some ''t1''\<rparr>]\<rparr>"
  by (simp add: after_first_login_def login_def check_password_def ex_defs drv_defs)

lemma after_second_login_eq: "after_second_login = after_first_login"
  by (simp add: after_second_login_def after_first_login_eq login_def check_password_def
      ex_defs drv_defs)

text \<open>
  C2, as the code has it. After a successful \<^verbatim>\<open>login\<close>, \<^verbatim>\<open>change_password\<close> or
  \<^verbatim>\<open>logout\<close>, \<^verbatim>\<open>check_token\<close> on the store the operation left, with its lookup not
  failing, answers the authorization failure for every token \<open>T\<close> other than the one
  the operation issued. The token issued is a function of user id, terminal and clock
  reading: a token of an earlier login is the same string exactly when terminal and
  clock reading are the same.
\<close>

theorem rotation_invalidates_other_tokens:
  assumes "g 0 = None"
  shows
    "(login K E f race d u p terminal now = (Inr (Tuple3 (200, ''ok'', T')), d_login) \<and> T \<noteq> T' \<longrightarrow>
        check_token K E g d_login u T now' = Inr (error_authorization_fail E)) \<and>
     (change_password K E f race d u old new tstr now = (Inr (200, ''ok''), d_change) \<and>
      T \<noteq> signed_token u (''terminal_'' @ tstr) now \<longrightarrow>
        check_token K E g d_change u T now' = Inr (error_authorization_fail E)) \<and>
     (logout K E f race d u T now_check tstr now = (Inr (200, ''ok''), d_logout) \<and>
      T \<noteq> signed_token u (''terminal_'' @ tstr) now \<longrightarrow>
        check_token K E g d_logout u T now' = Inr (error_authorization_fail E)) \<and>
     (signed_token u terminal_old now_old = signed_token u terminal now \<longleftrightarrow>
        terminal_old = terminal \<and> now_old = now)"
proof (intro conjI impI)
  assume a: "login K E f race d u p terminal now = (Inr (Tuple3 (200, ''ok'', T')), d_login) \<and> T \<noteq> T'"
  from login_success[OF a[THEN conjunct1]] a
  show "check_token K E g d_login u T now' = Inr (error_authorization_fail E)"
    by (auto intro!: check_token_after_overwrite[where g = g, OF assms])
next
  assume a: "change_password K E f race d u old new tstr now = (Inr (200, ''ok''), d_change) \<and>
      T \<noteq> signed_token u (''terminal_'' @ tstr) now"
  from change_password_success[OF a[THEN conjunct1]] a
  show "check_token K E g d_change u T now' = Inr (error_authorization_fail E)"
    by (auto intro!: check_token_after_overwrite[where g = g, OF assms])
next
  assume a: "logout K E f race d u T now_check tstr now = (Inr (200, ''ok''), d_logout) \<and>
      T \<noteq> signed_token u (''terminal_'' @ tstr) now"
  from logout_success[OF a[THEN conjunct1]] a
  show "check_token K E g d_logout u T now' = Inr (error_authorization_fail E)"
    by (auto intro!: check_token_after_overwrite[where g = g, OF assms])
next
  show "signed_token u terminal_old now_old = signed_token u terminal now \<longleftrightarrow>
        terminal_old = terminal \<and> now_old = now"
    by (simp add: signed_token_eq_iff)
qed

theorem rotation_invalidates_other_tokens_witness:
  "fst (login example_policy example_catalog no_faults id example_db ''u1'' ''p1'' ''t1'' 100)
     = Inr (Tuple3 (200, ''ok'', signed_token ''u1'' ''t1'' 100)) \<and>
   signed_token ''u1'' ''t0'' 0 \<noteq> signed_token ''u1'' ''t1'' 100 \<and>
   check_token example_policy example_catalog no_faults
     (snd (login example_policy example_catalog no_faults id example_db ''u1'' ''p1'' ''t1'' 100))
     ''u1'' (signed_token ''u1'' ''t0'' 0) 200 = Inr (error_authorization_fail example_catalog) \<and>
   fst (change_password example_policy example_catalog no_faults id example_db ''u1'' ''p1'' ''p2'' ''100.0'' 100)
     = Inr (200, ''ok'') \<and>
   signed_token ''u1'' ''t0'' 0 \<noteq> signed_token ''u1'' (''terminal_'' @ ''100.0'') 100 \<and>
   check_token example_policy example_catalog no_faults
     (snd (change_password example_policy example_catalog no_faults id example_db ''u1'' ''p1'' ''p2'' ''100.0'' 100))
     ''u1'' (signed_token ''u1'' ''t0'' 0) 200 = Inr (error_authorization_fail example_catalog) \<and>
   fst (logout example_policy example_catalog no_faults id example_db ''u1'' (signed_token ''u1'' ''t0'' 0) 50
          ''100.0'' 100) = Inr (200, ''ok'') \<and>
   check_token example_policy example_catalog no_faults
     (snd (logout example_policy example_catalog no_faults id example_db ''u1'' (signed_token ''u1'' ''t0'' 0) 50
          ''100.0'' 100))
     ''u1'' (signed_token ''u1'' ''t0'' 0) 200 = Inr (error_authorization_fail example_catalog)"
proof -
  let ?T = "signed_token ''u1'' ''t0'' 0"
  have l: "fst (login example_policy example_catalog no_faults id example_db ''u1'' ''p1'' ''t1'' 100)
     = Inr (Tuple3 (200, ''ok'', signed_token ''u1'' ''t1'' 100))"
    by (simp add: login_def check_password_def ex_defs drv_defs)
  have c: "fst (change_password example_policy example_catalog no_faults id example_db ''u1'' ''p1'' ''p2'' ''100.0'' 100)
     = Inr (200, ''ok'')"
    by (simp add: change_password_def check_password_def ex_defs drv_defs)
  have o: "fst (logout example_policy example_catalog no_faults id example_db ''u1'' ?T 50 ''100.0'' 100)
     = Inr (200, ''ok'')"
    by (simp add: logout_def check_token_def User__check_token_fresh token_lifetime_def
        ex_defs drv_defs)
  have n1: "?T \<noteq> signed_token ''u1'' ''t1'' 100" by (simp add: signed_token_def)
  have n2: "?T \<noteq> signed_token ''u1'' (''terminal_'' @ ''100.0'') 100" by (simp add: signed_token_def)
  note w = rotation_invalidates_other_tokens[where g = no_faults and E = example_catalog and f = no_faults and race = id
      and d = example_db and u = "''u1''" and T = ?T and now' = 200, OF no_faults_None]
  note w1 = w[where p = "''p1''" and terminal = "''t1''" and now = 100
      and T' = "signed_token ''u1'' ''t1'' 100"
      and d_login = "snd (login example_policy example_catalog no_faults id example_db ''u1'' ''p1'' ''t1'' 100)",
      THEN conjunct1]
  note w2 = w[where old = "''p1''" and new = "''p2''" and tstr = "''100.0''" and now = 100
      and d_change = "snd (change_password example_policy example_catalog no_faults id example_db ''u1'' ''p1'' ''p2'' ''100.0'' 100)",
      THEN conjunct2, THEN conjunct1]
  note w3 = w[where now_check = 50 and tstr = "''100.0''" and now = 100
      and d_logout = "snd (logout example_policy example_catalog no_faults id example_db ''u1'' ?T 50 ''100.0'' 100)",
      THEN conjunct2, THEN conjunct2, THEN conjunct1]
  from w1 l n1 have r1: "check_token example_policy example_catalog no_faults
     (snd (login example_policy example_catalog no_faults id example_db ''u1'' ''p1'' ''t1'' 100))
     ''u1'' ?T 200 = Inr (error_authorization_fail example_catalog)"
    by (simp add: prod_eq_iff)
  from w2 c n2 have r2: "check_token example_policy example_catalog no_faults
     (snd (change_password example_policy example_catalog no_faults id example_db ''u1'' ''p1'' ''p2'' ''100.0'' 100))
     ''u1'' ?T 200 = Inr (error_authorization_fail example_catalog)"
    by (simp add: prod_eq_iff)
  from w3 o n2 have r3: "check_token example_policy example_catalog no_faults
     (snd (logout example_policy example_catalog no_faults id example_db ''u1'' ?T 50 ''100.0'' 100))
     ''u1'' ?T 200 = Inr (error_authorization_fail example_catalog)"
    by (simp add: prod_eq_iff)
  from l n1 r1 c n2 r2 o r3 show ?thesis by blast
qed

text \<open>
  C2 as stated fails where the second login is at the terminal and the clock reading of
  the first: it issues the very token the first one returned, and \<^verbatim>\<open>check_token\<close> with
  that previous token succeeds.
\<close>

theorem second_login_same_reading_keeps_token:
  "fst (login example_policy example_catalog no_faults id example_db ''u1'' ''p1'' ''t1'' 100)
     = Inr (Tuple3 (200, ''ok'', signed_token ''u1'' ''t1'' 100)) \<and>
   fst (login example_policy example_catalog no_faults id after_first_login ''u1'' ''p1'' ''t1'' 100)
     = Inr (Tuple3 (200, ''ok'', signed_token ''u1'' ''t1'' 100)) \<and>
   check_token example_policy example_catalog no_faults after_second_login ''u1'' (signed_token ''u1'' ''t1'' 100) 100
     = Inr (200, ''ok'') \<and>
   check_token example_policy example_catalog no_faults after_second_login ''u1'' (signed_token ''u1'' ''t1'' 100) 100
     \<noteq> Inr (error_authorization_fail example_catalog)"
proof -
  have 1: "fst (login example_policy example_catalog no_faults id example_db ''u1'' ''p1'' ''t1'' 100)
     = Inr (Tuple3 (200, ''ok'', signed_token ''u1'' ''t1'' 100))"
    by (simp add: login_def check_password_def ex_defs drv_defs)
  have 2: "fst (login example_policy example_catalog no_faults id after_first_login ''u1'' ''p1'' ''t1'' 100)
     = Inr (Tuple3 (200, ''ok'', signed_token ''u1'' ''t1'' 100))"
    by (simp add: after_first_login_eq login_def check_password_def ex_defs drv_defs)
  have 3: "check_token example_policy example_catalog no_faults after_second_login ''u1''
      (signed_token ''u1'' ''t1'' 100) 100 = Inr (200, ''ok'')"
    by (simp add: after_second_login_eq after_first_login_eq check_token_def find_one_def
        no_faults_def example_db_def example_policy_def User__check_token_fresh
        token_lifetime_def)
  have 4: "Inr (200, ''ok'') \<noteq> (Inr (error_authorization_fail example_catalog) :: exn + (int \<times> string))"
    by (simp add: example_catalog_def)
  from 1 2 3 4 show ?thesis by simp
qed

section \<open>Stock levels\<close>

lemma list_all_update_first:
  "list_all P xs \<Longrightarrow> (\<And>x. P x \<Longrightarrow> flt x \<Longrightarrow> P (upd x)) \<Longrightarrow> list_all P (update_first flt upd xs)"
  by (induction xs) auto

lemma register_coll_store: "coll_store (snd (register K E f d u p tstr now)) = coll_store d"
  by (simp add: register_def drv_defs split: option.splits sum.splits exn.splits)

lemma create_store_coll_store: "coll_store (snd (create_store E f d u s)) = coll_store d"
  by (simp add: create_store_def drv_defs split: option.splits sum.splits exn.splits bool.splits)

lemma ship_order_coll_store: "coll_store (snd (ship_order E f d u s oid)) = coll_store d"
  by (simp add: ship_order_def drv_defs split: option.splits sum.splits exn.splits bool.splits)

lemma add_book_stock:
  "stock_nonneg d \<Longrightarrow> 0 \<le> n \<Longrightarrow> stock_nonneg (snd (add_book E f d u s b j n))"
  by (simp add: add_book_def drv_defs stock_nonneg_def
      split: option.splits sum.splits exn.splits bool.splits)

lemma add_stock_level_stock:
  "stock_nonneg d \<Longrightarrow> 0 \<le> n \<Longrightarrow> stock_nonneg (snd (add_stock_level E f d u s b n))"
  by (simp add: add_stock_level_def drv_defs stock_nonneg_def list_all_update_first
      split: option.splits sum.splits exn.splits bool.splits)

lemma run_stock:
  "stock_nonneg d \<Longrightarrow> nonneg_amount c \<Longrightarrow> stock_nonneg (snd (run K E f d c))"
  by (cases c)
     (simp_all add: add_book_stock add_stock_level_stock,
      simp_all add: stock_nonneg_def register_coll_store create_store_coll_store
        ship_order_coll_store)

text \<open>
  C5, as the code has it. The code accepts any integer as initial stock and as
  increment and checks neither. What it preserves: if every stock level is at least 0
  and every call of a sequence passes an amount that is at least 0, every stock level is
  at least 0 after the sequence, whatever each call returns and whichever driver calls
  fail.
\<close>

theorem stock_nonneg_preserved:
  "stock_nonneg d \<Longrightarrow> list_all (\<lambda>fc. nonneg_amount (snd fc)) cs \<Longrightarrow>
   stock_nonneg (run_calls K E d cs)"
proof (induction cs arbitrary: d)
  case Nil
  then show ?case by simp
next
  case (Cons fc cs)
  obtain f c where fc: "fc = (f, c)" by (cases fc)
  from Cons.prems have "stock_nonneg (snd (run K E f d c))"
    by (simp add: fc run_stock)
  with Cons show ?case by (simp add: fc)
qed

theorem stock_nonneg_preserved_witness:
  "stock_nonneg example_db \<and>
   list_all (\<lambda>fc. nonneg_amount (snd fc))
     [(no_faults, AddBook ''u1'' ''s1'' ''b2'' ''{}'' 3), (no_faults, AddStockLevel ''u1'' ''s1'' ''b1'' 5)] \<and>
   stock_nonneg (run_calls example_policy example_catalog example_db
     [(no_faults, AddBook ''u1'' ''s1'' ''b2'' ''{}'' 3), (no_faults, AddStockLevel ''u1'' ''s1'' ''b1'' 5)]) \<and>
   map bd_stock_level (coll_store (run_calls example_policy example_catalog example_db
     [(no_faults, AddBook ''u1'' ''s1'' ''b2'' ''{}'' 3), (no_faults, AddStockLevel ''u1'' ''s1'' ''b1'' 5)]))
     = [15, 3]"
proof -
  have a: "stock_nonneg example_db" by (simp add: stock_nonneg_def ex_defs)
  have b: "list_all (\<lambda>fc. nonneg_amount (snd fc))
     [(no_faults, AddBook ''u1'' ''s1'' ''b2'' ''{}'' 3), (no_faults, AddStockLevel ''u1'' ''s1'' ''b1'' 5)]"
    by simp
  have e: "map bd_stock_level (coll_store (run_calls example_policy example_catalog example_db
     [(no_faults, AddBook ''u1'' ''s1'' ''b2'' ''{}'' 3), (no_faults, AddStockLevel ''u1'' ''s1'' ''b1'' 5)]))
     = [15, 3]"
    by (simp add: add_stock_level_def add_book_def ex_defs drv_defs)
  from a b e stock_nonneg_preserved[where K = example_policy and E = example_catalog, OF a b] show ?thesis by blast
qed

text \<open>
  C5 as stated fails: an increment of -11 on a stock of 10, or a listing added with
  stock -1, is accepted and leaves a negative stock level.
\<close>

theorem negative_amount_breaks_stock_nonneg:
  "stock_nonneg example_db \<and>
   \<not> stock_nonneg (run_calls example_policy example_catalog example_db
        [(no_faults, AddStockLevel ''u1'' ''s1'' ''b1'' (- 11))]) \<and>
   \<not> stock_nonneg (run_calls example_policy example_catalog example_db
        [(no_faults, AddBook ''u1'' ''s1'' ''b2'' ''{}'' (- 1))])"
  by (simp add: stock_nonneg_def add_stock_level_def add_book_def ex_defs drv_defs)

section \<open>Precondition failures change nothing\<close>

lemma register_unchanged:
  "register K E f d u p tstr now = (Inr r, d') \<Longrightarrow> fst r \<noteq> 200 \<Longrightarrow> d' = d"
  by (auto simp: register_def drv_defs split: option.splits sum.splits exn.splits if_splits)

lemma add_book_unchanged:
  "add_book E f d u s b j n = (Inr r, d') \<Longrightarrow> fst r \<noteq> 200 \<Longrightarrow> d' = d"
  by (auto simp: add_book_def drv_defs split: option.splits sum.splits exn.splits bool.splits if_splits)

lemma add_stock_level_unchanged:
  "add_stock_level E f d u s b n = (Inr r, d') \<Longrightarrow> fst r \<noteq> 200 \<Longrightarrow> d' = d"
  by (auto simp: add_stock_level_def drv_defs split: option.splits sum.splits exn.splits bool.splits if_splits)

lemma create_store_unchanged:
  "create_store E f d u s = (Inr r, d') \<Longrightarrow> fst r \<noteq> 200 \<Longrightarrow> d' = d"
  by (auto simp: create_store_def drv_defs split: option.splits sum.splits exn.splits bool.splits if_splits)

lemma ship_order_unchanged:
  "ship_order E f d u s oid = (Inr r, d') \<Longrightarrow> fst r \<noteq> 200 \<Longrightarrow> d' = d"
  by (auto simp: ship_order_def drv_defs split: option.splits sum.splits exn.splits bool.splits if_splits)

lemma run_unchanged:
  "run K E f d c = (Inr r, d') \<Longrightarrow> fst r \<noteq> 200 \<Longrightarrow> d' = d"
  by (cases c)
     (auto dest: register_unchanged add_book_unchanged add_stock_level_unchanged
        create_store_unchanged ship_order_unchanged)

lemma semantic_failures_not_200:
  "catalog_ok E \<Longrightarrow> r \<in> set (semantic_failures E c) \<Longrightarrow> fst r \<noteq> 200"
  by (cases c) (auto simp: catalog_ok_def)

text \<open>
  C7. With a catalogue whose codes are not 200: whenever \<^verbatim>\<open>register\<close>, \<^verbatim>\<open>add_book\<close>,
  \<^verbatim>\<open>add_stock_level\<close>, \<^verbatim>\<open>create_store\<close> or \<^verbatim>\<open>ship_order\<close> returns one of its semantic
  precondition failures (missing user, shop, book or order; duplicate user, shop or
  book; order not paid), the store after the call is the store before it.
\<close>

theorem semantic_failure_leaves_store:
  assumes "catalog_ok E" and "run K E f d c = (Inr r, d')" and "r \<in> set (semantic_failures E c)"
  shows "d' = d"
  using run_unchanged[OF assms(2)] semantic_failures_not_200[OF assms(1,3)] by simp

theorem semantic_failure_leaves_store_witness:
  "catalog_ok example_catalog \<and>
   fst (run example_policy example_catalog no_faults example_db (AddBook ''u1'' ''s1'' ''b1'' ''{}'' 7))
     = Inr (error_exist_book_id example_catalog ''b1'') \<and>
   error_exist_book_id example_catalog ''b1''
     \<in> set (semantic_failures example_catalog (AddBook ''u1'' ''s1'' ''b1'' ''{}'' 7)) \<and>
   snd (run example_policy example_catalog no_faults example_db (AddBook ''u1'' ''s1'' ''b1'' ''{}'' 7))
     = example_db"
proof -
  let ?c = "AddBook ''u1'' ''s1'' ''b1'' ''{}'' 7"
  have r: "fst (run example_policy example_catalog no_faults example_db ?c)
      = Inr (error_exist_book_id example_catalog ''b1'')"
    by (simp add: add_book_def ex_defs drv_defs)
  have h: "run example_policy example_catalog no_faults example_db ?c
      = (Inr (error_exist_book_id example_catalog ''b1''),
         snd (run example_policy example_catalog no_faults example_db ?c))"
    using r by (simp add: prod_eq_iff)
  have m: "error_exist_book_id example_catalog ''b1''
      \<in> set (semantic_failures example_catalog ?c)"
    by simp
  from catalog_ok_example r m semantic_failure_leaves_store[OF catalog_ok_example h m]
  show ?thesis by blast
qed

end
